theory Spec2Isabelle
  imports Main "HOL-Library.Word"
begin

section \<open>Data model\<close>

text \<open>
  The agent turns raw kernel events into \<open>metric.Metric\<close> records. The Go packages
  \<open>metric\<close>, \<open>kprobe\<close>, \<open>ebpf\<close> (HTTP) and \<open>rpcebpf\<close> are imported by the two
  providers but their declarations are not among the sources, so the records below hold
  exactly the fields the providers read and write, under the names the providers use.

  A Go \<open>map[string]string\<close> is a partial map. Reading a missing key of a Go map gives
  the zero value, the empty string: \<open>index\<close> is that read.
\<close>

type_synonym tags = "string \<rightharpoonup> string"

definition index :: "tags \<Rightarrow> string \<Rightarrow> string" where
  "index m k = (case m k of None \<Rightarrow> [] | Some v \<Rightarrow> v)"

text \<open>\<open>metric.Metric\<close>. \<open>Fields\<close> holds numbers only; \<open>Timestamp\<close> is an int64 of nanoseconds.\<close>

record Metric =
  Name :: string
  Measurement :: string
  Timestamp :: int
  OrgName :: string
  Tags :: tags
  Fields :: "string \<rightharpoonup> int"

text \<open>\<open>corev1.Pod\<close> and \<open>corev1.Service\<close>, with \<open>HostIP\<close> standing for \<open>Status.HostIP\<close>.\<close>

record Pod =
  Namespace :: string
  Name :: string
  UID :: string
  Labels :: tags
  Annotations :: tags
  HostIP :: string

record Service =
  Namespace :: string
  Name :: string

text \<open>
  \<open>kprobe.Interface\<close>, the workload directory: both lookups return a value and an
  error; \<open>Inl\<close> is a non-nil error. The type switch of \<open>Convert\<close> names the value types
  \<open>corev1.Pod\<close> and \<open>corev1.Service\<close>, so the lookups return values of these types.
\<close>

type_synonym error = string

record kprobe =
  GetPodByUID :: "string \<Rightarrow> error + Pod"
  GetService :: "string \<Rightarrow> error + Service"

text \<open>
  The HTTP raw event, \<open>ebpf.Metric\<close> of the HTTP plugin. The status code is an unsigned
  16-bit value; the addresses are held as the text \<open>%s\<close> prints and the ports as the
  integers \<open>%d\<close> prints.
\<close>

record HttpMetric =
  Method :: string
  Path :: string
  Version :: string
  StatusCode :: "16 word"
  SourceIP :: string
  DestIP :: string
  DestPort :: int

section \<open>Formatting\<close>

text \<open>
  \<open>strconv.Itoa\<close> and the verb \<open>%d\<close> of \<open>fmt.Sprintf\<close> print an integer in decimal,
  with a minus sign when it is negative.
\<close>

definition digit :: "nat \<Rightarrow> char" where
  "digit n = ''0123456789'' ! (n mod 10)"

function formatBits :: "nat \<Rightarrow> string" where
  "formatBits n = (if n < 10 then [digit n] else formatBits (n div 10) @ [digit (n mod 10)])"
  by pat_completeness auto
termination
  by (relation "measure id") auto

declare formatBits.simps [simp del]

definition Itoa :: "int \<Rightarrow> string" where
  "Itoa i = (if i < 0 then CHR ''-'' # formatBits (nat (- i)) else formatBits (nat i))"

section \<open>HTTP enrichment: \<open>Convert\<close>\<close>

definition measurementGroup :: string where
  "measurementGroup = ''application_http''"

definition measurementGroupError :: string where
  "measurementGroupError = ''application_http_error''"

definition set_tag :: "string \<Rightarrow> string \<Rightarrow> Metric \<Rightarrow> Metric" where
  "set_tag k v out = out\<lparr>Tags := (Tags out)(k \<mapsto> v)\<rparr>"

text \<open>The \<open>"%s_%s_%s"\<close> service id of a pod.\<close>

definition service_id :: "Pod \<Rightarrow> string" where
  "service_id p =
     index (Labels p) ''DICE_APPLICATION_ID'' @ ''_'' @
     index (Annotations p) ''msp.erda.cloud/runtime_name'' @ ''_'' @
     index (Labels p) ''DICE_SERVICE_NAME''"

text \<open>The metric \<open>Convert\<close> starts from (lines 41 to 57), before the measurement is chosen.\<close>

definition http_output :: "int \<Rightarrow> HttpMetric \<Rightarrow> Metric" where
  "http_output now m =
     \<lparr>Metric.Name = [], Measurement = [], Timestamp = now, OrgName = [],
      Tags = [''metric_source'' \<mapsto> ''ebpf'',
              ''_meta'' \<mapsto> ''true'',
              ''_metric_scope'' \<mapsto> ''micro_service'',
              ''span_kind'' \<mapsto> ''server'',
              ''http_method'' \<mapsto> Method m,
              ''http_path'' \<mapsto> HttpMetric.Path m,
              ''http_status_code'' \<mapsto> Itoa (uint (StatusCode m)),
              ''http_target'' \<mapsto> HttpMetric.Path m,
              ''http_version'' \<mapsto> Version m,
              ''http_url'' \<mapsto> ''http://'' @ DestIP m @ '':'' @ Itoa (DestPort m) @ HttpMetric.Path m],
      Fields = Map.empty\<rparr>"

text \<open>The \<open>corev1.Pod\<close> arm of the type switch (lines 95 to 133), one line per assignment.\<close>

definition http_pod_arm :: "HttpMetric \<Rightarrow> Pod \<Rightarrow> Pod \<Rightarrow> Metric \<Rightarrow> Metric" where
  "http_pod_arm m sourcePod t output0 =
    (let output = set_tag ''cluster_name'' (index (Labels t) ''DICE_CLUSTER_NAME'') output0;
         output = set_tag ''db_host'' (DestIP m @ '':'' @ Itoa (DestPort m)) output;
         output = set_tag ''org_name'' (index (Labels t) ''DICE_ORG_NAME'') output;
         output = set_tag ''peer_address'' (index (Tags output) ''db_host'') output;
         output = set_tag ''peer_hostname'' [] output;
         output = output\<lparr>OrgName := index (Tags output) ''org_name''\<rparr>;
         output = set_tag ''target_application_id'' (index (Labels t) ''DICE_APPLICATION_ID'') output;
         output = set_tag ''target_application_name'' (index (Labels t) ''DICE_APPLICATION_NAME'') output;
         output = set_tag ''target_org_id'' (index (Labels t) ''DICE_ORG_ID'') output;
         output = set_tag ''target_project_id'' (index (Labels t) ''DICE_PROJECT_ID'') output;
         output = set_tag ''target_project_name'' (index (Labels t) ''DICE_PROJECT_NAME'') output;
         output = set_tag ''target_runtime_id'' (index (Labels t) ''DICE_RUNTIME_ID'') output;
         output = set_tag ''target_runtime_name'' (index (Annotations t) ''msp.erda.cloud/runtime_name'') output;
         output = set_tag ''target_service_id'' (service_id t) output;
         output = set_tag ''target_service_instance_id'' (UID t) output;
         output = set_tag ''target_service_name'' (index (Annotations t) ''msp.erda.cloud/service_name'') output;
         output = set_tag ''target_terminus_key'' (index (Annotations t) ''msp.erda.cloud/terminus_key'') output;
         output = set_tag ''target_workspace'' (index (Annotations t) ''msp.erda.cloud/workspace'') output;
         output = set_tag ''source_application_id'' (index (Labels sourcePod) ''DICE_APPLICATION_ID'') output;
         output = set_tag ''source_application_name'' (index (Labels sourcePod) ''DICE_APPLICATION_NAME'') output;
         output = set_tag ''source_org_id'' (index (Labels sourcePod) ''DICE_ORG_ID'') output;
         output = set_tag ''source_project_id'' (index (Labels sourcePod) ''DICE_PROJECT_ID'') output;
         output = set_tag ''source_project_name'' (index (Labels sourcePod) ''DICE_PROJECT_NAME'') output;
         output = set_tag ''source_runtime_id'' (index (Labels sourcePod) ''DICE_RUNTIME_ID'') output;
         output = set_tag ''source_runtime_name'' (index (Annotations sourcePod) ''msp.erda.cloud/runtime_name'') output;
         output = set_tag ''source_service_id'' (service_id sourcePod) output;
         output = set_tag ''source_service_instance_id'' (UID sourcePod) output;
         output = set_tag ''source_service_name'' (index (Annotations sourcePod) ''msp.erda.cloud/service_name'') output;
         output = set_tag ''source_terminus_key'' (index (Annotations sourcePod) ''msp.erda.cloud/terminus_key'') output;
         output = set_tag ''source_workspace'' (index (Annotations sourcePod) ''msp.erda.cloud/workspace'') output
     in output)"

text \<open>The keys the \<open>corev1.Pod\<close> arm assigns.\<close>

definition http_pod_keys :: "string list" where
  "http_pod_keys =
     [''cluster_name'', ''db_host'', ''org_name'', ''peer_address'', ''peer_hostname'',
      ''target_application_id'', ''target_application_name'', ''target_org_id'',
      ''target_project_id'', ''target_project_name'', ''target_runtime_id'',
      ''target_runtime_name'', ''target_service_id'', ''target_service_instance_id'',
      ''target_service_name'', ''target_terminus_key'', ''target_workspace'',
      ''source_application_id'', ''source_application_name'', ''source_org_id'',
      ''source_project_id'', ''source_project_name'', ''source_runtime_id'',
      ''source_runtime_name'', ''source_service_id'', ''source_service_instance_id'',
      ''source_service_name'', ''source_terminus_key'', ''source_workspace'']"

text \<open>
  \<open>target\<close> of \<open>Convert\<close>: the \<open>any\<close> that holds a pod, a service, or stays \<open>nil\<close>
  (\<open>None\<close>). The service is looked up only when the pod lookup failed.
\<close>

datatype target = TPod Pod | TService Service

definition resolve_target :: "kprobe \<Rightarrow> string \<Rightarrow> target option" where
  "resolve_target k ip =
     (case GetPodByUID k ip of
        Inl err \<Rightarrow> (case GetService k ip of Inl err' \<Rightarrow> None | Inr svc \<Rightarrow> Some (TService svc))
      | Inr pod \<Rightarrow> Some (TPod pod))"

text \<open>
  \<open>Convert\<close> returns a pointer to the metric, \<open>nil\<close> (\<open>None\<close>) when the event is
  suppressed. \<open>now\<close> is what \<open>time.Now().UnixNano()\<close> reads. The log lines are left out:
  they change nothing the function returns. The \<open>default\<close> arm of the type switch has
  no value to run on, since \<open>target\<close> holds a pod or a service.
\<close>

definition Convert :: "kprobe \<Rightarrow> int \<Rightarrow> HttpMetric \<Rightarrow> Metric option" where
  "Convert k now m =
    (let measurement = (if StatusCode m > 200 then measurementGroupError else measurementGroup);
         output = (http_output now m)\<lparr>Measurement := measurement, Metric.Name := measurement\<rparr>
     in case GetPodByUID k (SourceIP m) of
          Inl err \<Rightarrow> None
        | Inr sourcePod \<Rightarrow>
            (case resolve_target k (DestIP m) of
               None \<Rightarrow> None
             | Some (TPod t) \<Rightarrow> Some (http_pod_arm m sourcePod t output)
             | Some (TService t) \<Rightarrow> Some output))"

section \<open>The path pattern of the RPC plugin\<close>

text \<open>
  \<open>pathRegexp\<close> is \<open>(.*)!([a-zA-Z.]+)([0-9.]+)([a-zA-Z/;]+)\<close>, compiled by Go's
  \<open>regexp\<close> package. Its \<open>FindStringSubmatch\<close> returns the match that starts leftmost
  and, among those, the one a backtracking search finds first (every repetition here is
  greedy); it returns \<open>nil\<close> when nothing matches, and otherwise the whole match
  followed by the four groups. The matcher below is that search for this pattern, on
  bytes. Go matches runes, but every class of the pattern but \<open>.\<close> is ASCII, and \<open>.\<close>
  excludes the newline only, so the groups begin and end at the same bytes.
\<close>

definition letter :: "char \<Rightarrow> bool" where
  "letter c = (c \<in> set ''abcdefghijklmnopqrstuvwxyzABCDEFGHIJKLMNOPQRSTUVWXYZ'')"

definition any_char :: "char \<Rightarrow> bool" where  \<comment> \<open>\<open>.\<close>\<close>
  "any_char c = (c \<noteq> CHR 0x0A)"

definition class_service :: "char \<Rightarrow> bool" where  \<comment> \<open>\<open>[a-zA-Z.]\<close>\<close>
  "class_service c = (letter c \<or> c = CHR ''.'')"

definition class_version :: "char \<Rightarrow> bool" where  \<comment> \<open>\<open>[0-9.]\<close>\<close>
  "class_version c = (c \<in> set ''0123456789.'')"

definition class_method :: "char \<Rightarrow> bool" where  \<comment> \<open>\<open>[a-zA-Z/;]\<close>\<close>
  "class_method c = (letter c \<or> c \<in> set ''/;'')"

text \<open>
  \<open>greedy P s\<close>: every way to split \<open>s\<close> into a prefix of characters of the class \<open>P\<close>
  and the rest, the longest prefix first, which is the order in which a greedy repetition
  gives characters back.
\<close>

fun greedy :: "(char \<Rightarrow> bool) \<Rightarrow> string \<Rightarrow> (string \<times> string) list" where
  "greedy P [] = [([], [])]"
| "greedy P (c # cs) =
     (if P c then map (\<lambda>(p, r). (c # p, r)) (greedy P cs) else []) @ [([], c # cs)]"

definition star :: "(char \<Rightarrow> bool) \<Rightarrow> string \<Rightarrow> (string \<times> string) list" where
  "star P s = greedy P s"

definition plus :: "(char \<Rightarrow> bool) \<Rightarrow> string \<Rightarrow> (string \<times> string) list" where
  "plus P s = filter (\<lambda>(p, r). p \<noteq> []) (greedy P s)"

text \<open>All matches that start at the head of \<open>s\<close>, in the order of the search.\<close>

definition match_here :: "string \<Rightarrow> string list list" where
  "match_here s =
     [[g1 @ ''!'' @ g2 @ g3 @ g4, g1, g2, g3, g4].
        (g1, r1) \<leftarrow> star any_char s, c \<leftarrow> take 1 r1, c = CHR ''!'',
        (g2, r2) \<leftarrow> plus class_service (drop 1 r1),
        (g3, r3) \<leftarrow> plus class_version r2,
        (g4, r4) \<leftarrow> plus class_method r3]"

text \<open>The empty list is Go's \<open>nil\<close> slice, of length 0.\<close>

fun FindStringSubmatch :: "string \<Rightarrow> string list" where
  "FindStringSubmatch s =
     (case match_here s of
        r # _ \<Rightarrow> r
      | [] \<Rightarrow> (case s of [] \<Rightarrow> [] | _ # cs \<Rightarrow> FindStringSubmatch cs))"

declare FindStringSubmatch.simps [simp del]

text \<open>
  What it means for four strings to be the groups of a match of the pattern, stated
  without a search: the specification the matcher is compared with below.
\<close>

definition regex_groups :: "string \<Rightarrow> string \<Rightarrow> string \<Rightarrow> string \<Rightarrow> bool" where
  "regex_groups g1 g2 g3 g4 =
     (list_all any_char g1
      \<and> g2 \<noteq> [] \<and> list_all class_service g2
      \<and> g3 \<noteq> [] \<and> list_all class_version g3
      \<and> g4 \<noteq> [] \<and> list_all class_method g4)"

section \<open>RPC enrichment: \<open>convertRpc2Metric\<close>\<close>

text \<open>
  The RPC raw event, \<open>rpcebpf.Metric\<close>. \<open>RpcType\<close> is held as the text
  \<open>string(m.RpcType)\<close> gives; the constant \<open>rpcebpf.RPC_TYPE_DUBBO\<close> is not among the
  sources and is a parameter of the conversion.
\<close>

record RpcMetric =
  Path :: string
  Status :: string
  SrcIP :: string
  SrcPort :: int
  DstIP :: string
  DstPort :: int
  Duration :: int
  RpcType :: string

definition rpc_measurementGroup :: string where
  "rpc_measurementGroup = ''application_rpc''"

text \<open>
  Lines 128 to 137: \<open>(rpcTarget, rpcMethod, rpcService, rpcVersion, serviceVersion)\<close>.
  The four indices are read only when the slice has length 5.
\<close>

definition parse_path :: "string \<Rightarrow> string \<times> string \<times> string \<times> string \<times> string" where
  "parse_path path =
     (let parseLine = FindStringSubmatch path
      in if length parseLine = 5
         then (parseLine ! 2 @ ''.'' @ parseLine ! 4, parseLine ! 4, parseLine ! 2,
               parseLine ! 1, parseLine ! 3)
         else (path, [], [], [], []))"

text \<open>Lines 112 to 127: the metric before the path is parsed.\<close>

definition rpc_res :: "int \<Rightarrow> RpcMetric \<Rightarrow> Metric" where
  "rpc_res now m =
     (let res = \<lparr>Metric.Name = rpc_measurementGroup, Measurement = rpc_measurementGroup,
                 Timestamp = now, OrgName = [], Tags = Map.empty,
                 Fields = [''elapsed_count'' \<mapsto> 1,
                           ''elapsed_sum'' \<mapsto> Duration m,
                           ''elapsed_max'' \<mapsto> Duration m,
                           ''elapsed_min'' \<mapsto> Duration m,
                           ''elapsed_mean'' \<mapsto> Duration m]\<rparr>;
          res = set_tag ''metric_source'' ''ebpf'' res;
          res = set_tag ''_meta'' ''true'' res;
          res = set_tag ''_metric_scope'' ''micro_service'' res
      in res)"

text \<open>Lines 147 to 163: the tags that depend on the framing, and the error tag.\<close>

definition rpc_framing_tags ::
  "string \<Rightarrow> RpcMetric \<Rightarrow> string \<Rightarrow> string \<Rightarrow> string \<Rightarrow> string \<Rightarrow> Metric \<Rightarrow> Metric" where
  "rpc_framing_tags RPC_TYPE_DUBBO m rpcMethod rpcService rpcVersion serviceVersion res0 =
     (if RpcType m = RPC_TYPE_DUBBO then
        (let res = set_tag ''dubbo_service'' rpcService res0;
             res = set_tag ''dubbo_version'' rpcVersion res;
             res = set_tag ''dubbo_method'' rpcMethod res;
             res = set_tag ''service_version'' serviceVersion res
         in if Status m = ''20'' then set_tag ''error'' ''false'' res
            else set_tag ''error'' ''true'' res)
      else
        (if Status m = ''200'' then set_tag ''error'' ''false'' res0
         else set_tag ''error'' ''true'' res0))"

text \<open>Lines 141 to 182: the block run when the pod of \<open>SrcIP\<close> is found.\<close>

definition rpc_target_block ::
  "string \<Rightarrow> RpcMetric \<Rightarrow> string \<Rightarrow> string \<Rightarrow> string \<Rightarrow> string \<Rightarrow> Pod \<Rightarrow> Metric \<Rightarrow> Metric" where
  "rpc_target_block RPC_TYPE_DUBBO m rpcMethod rpcService rpcVersion serviceVersion targetPod res0 =
    (let res = res0\<lparr>OrgName := index (Labels targetPod) ''DICE_ORG_NAME''\<rparr>;
         res = set_tag ''cluster_name'' (index (Labels targetPod) ''DICE_CLUSTER_NAME'') res;
         res = set_tag ''component'' (RpcType m) res;
         res = set_tag ''db_host'' (SrcIP m @ '':'' @ Itoa (SrcPort m)) res;
         res = set_tag ''method'' (RpcMetric.Path m) res;
         res = set_tag ''_metric_scope_id'' (index (Annotations targetPod) ''msp.erda.cloud/terminus_key'') res;
         res = rpc_framing_tags RPC_TYPE_DUBBO m rpcMethod rpcService rpcVersion serviceVersion res;
         res = set_tag ''host_ip'' (HostIP targetPod) res;
         res = set_tag ''org_name'' (index (Labels targetPod) ''DICE_ORG_NAME'') res;
         res = set_tag ''peer_address'' (DstIP m @ '':'' @ Itoa (DstPort m)) res;
         res = set_tag ''peer_service'' (RpcMetric.Path m) res;
         res = set_tag ''rpc_method'' (index (Tags res) ''dubbo_method'') res;
         res = set_tag ''rpc_service'' (index (Tags res) ''dubbo_service'') res;
         res = set_tag ''span_kind'' ''server'' res;
         res = set_tag ''target_application_id'' (index (Labels targetPod) ''DICE_APPLICATION_ID'') res;
         res = set_tag ''target_application_name'' (index (Labels targetPod) ''DICE_APPLICATION_NAME'') res;
         res = set_tag ''target_org_id'' (index (Labels targetPod) ''DICE_ORG_ID'') res;
         res = set_tag ''target_project_id'' (index (Labels targetPod) ''DICE_PROJECT_ID'') res;
         res = set_tag ''target_project_name'' (index (Labels targetPod) ''DICE_PROJECT_NAME'') res;
         res = set_tag ''target_runtime_id'' (index (Labels targetPod) ''DICE_RUNTIME_ID'') res;
         res = set_tag ''target_runtime_name'' (index (Annotations targetPod) ''msp.erda.cloud/runtime_name'') res;
         res = set_tag ''target_service_id'' (service_id targetPod) res;
         res = set_tag ''target_service_instance_id'' (UID targetPod) res;
         res = set_tag ''target_service_name'' (index (Annotations targetPod) ''msp.erda.cloud/service_name'') res;
         res = set_tag ''target_terminus_key'' (index (Annotations targetPod) ''msp.erda.cloud/terminus_key'') res;
         res = set_tag ''target_workspace'' (index (Annotations targetPod) ''msp.erda.cloud/workspace'') res
     in res)"

text \<open>Lines 186 to 194: the block run when the pod of \<open>DstIP\<close> is found.\<close>

definition rpc_source_block :: "Pod \<Rightarrow> Metric \<Rightarrow> Metric" where
  "rpc_source_block sourcePod res0 =
    (let res = set_tag ''source_application_id'' (index (Labels sourcePod) ''DICE_APPLICATION_ID'') res0;
         res = set_tag ''source_application_name'' (index (Labels sourcePod) ''DICE_APPLICATION_NAME'') res;
         res = set_tag ''source_org_id'' (index (Labels sourcePod) ''DICE_ORG_ID'') res;
         res = set_tag ''source_project_id'' (index (Labels sourcePod) ''DICE_PROJECT_ID'') res;
         res = set_tag ''source_project_name'' (index (Labels sourcePod) ''DICE_PROJECT_NAME'') res;
         res = set_tag ''source_runtime_id'' (index (Labels sourcePod) ''DICE_RUNTIME_ID'') res;
         res = set_tag ''source_runtime_name'' (index (Annotations sourcePod) ''msp.erda.cloud/runtime_name'') res;
         res = set_tag ''source_service_id'' (service_id sourcePod) res;
         res = set_tag ''source_workspace'' (index (Annotations sourcePod) ''msp.erda.cloud/workspace'') res
     in res)"

text \<open>The keys the three blocks assign.\<close>

definition rpc_framing_keys :: "string list" where
  "rpc_framing_keys =
     [''dubbo_service'', ''dubbo_version'', ''dubbo_method'', ''service_version'', ''error'']"

definition rpc_target_keys :: "string list" where
  "rpc_target_keys =
     [''cluster_name'', ''component'', ''db_host'', ''method'', ''_metric_scope_id'',
      ''host_ip'', ''org_name'', ''peer_address'', ''peer_service'', ''rpc_method'',
      ''rpc_service'', ''span_kind'', ''target_application_id'', ''target_application_name'',
      ''target_org_id'', ''target_project_id'', ''target_project_name'', ''target_runtime_id'',
      ''target_runtime_name'', ''target_service_id'', ''target_service_instance_id'',
      ''target_service_name'', ''target_terminus_key'', ''target_workspace'']"

definition rpc_source_keys :: "string list" where
  "rpc_source_keys =
     [''source_application_id'', ''source_application_name'', ''source_org_id'',
      ''source_project_id'', ''source_project_name'', ''source_runtime_id'',
      ''source_runtime_name'', ''source_service_id'', ''source_workspace'']"

text \<open>
  \<open>convertRpc2Metric\<close> always returns a metric. \<open>now\<close> is what \<open>time.Now().UnixNano()\<close>
  reads.
\<close>

definition convertRpc2Metric :: "string \<Rightarrow> kprobe \<Rightarrow> int \<Rightarrow> RpcMetric \<Rightarrow> Metric" where
  "convertRpc2Metric RPC_TYPE_DUBBO k now m =
    (case parse_path (RpcMetric.Path m) of
       (rpcTarget, rpcMethod, rpcService, rpcVersion, serviceVersion) \<Rightarrow>
        (let res = set_tag ''rpc_target'' rpcTarget (rpc_res now m);
             res = (case GetPodByUID k (SrcIP m) of
                      Inl err \<Rightarrow> res
                    | Inr targetPod \<Rightarrow>
                        rpc_target_block RPC_TYPE_DUBBO m rpcMethod rpcService rpcVersion
                          serviceVersion targetPod res);
             res = (case GetPodByUID k (DstIP m) of
                      Inl err \<Rightarrow> res
                    | Inr sourcePod \<Rightarrow> rpc_source_block sourcePod res)
         in res))"

section \<open>The RPC pipeline: \<open>sendMetrics\<close>\<close>

text \<open>
  \<open>sendMetrics\<close> loops for ever over the channel \<open>p.ch\<close>. The model runs it over the
  events the channel delivers, each with the clock reading at its conversion, and
  returns the metrics sent to \<open>c\<close>, in order, after those sent before.
\<close>

fun sendMetrics ::
  "string \<Rightarrow> kprobe \<Rightarrow> (int \<times> RpcMetric) list \<Rightarrow> Metric list \<Rightarrow> Metric list" where
  "sendMetrics RPC_TYPE_DUBBO k [] c = c"
| "sendMetrics RPC_TYPE_DUBBO k ((now, m) # ch) c =
     (if length (Status m) = 0 \<or> length (RpcMetric.Path m) = 0
      then sendMetrics RPC_TYPE_DUBBO k ch c
      else sendMetrics RPC_TYPE_DUBBO k ch (c @ [convertRpc2Metric RPC_TYPE_DUBBO k now m]))"

section \<open>The probe registry: \<open>Gather\<close>\<close>

text \<open>
  A veth as \<open>Gather\<close> reads it: \<open>Link.Attrs().Index\<close> and \<open>Neigh.IP.String()\<close>. An
  event of the netlink listener is a veth with a type.
\<close>

record veth =
  Index :: int
  IP :: string

datatype EventType = LinkAdd | LinkDelete | UnknownType int

record event = veth +
  Type :: EventType

text \<open>The probe \<open>rpcebpf.NewEbpf(index, ip, p.ch)\<close> builds.\<close>

record Ebpf =
  IfIndex :: int
  PeerIP :: string

definition NewEbpf :: "int \<Rightarrow> string \<Rightarrow> Ebpf" where
  "NewEbpf idx ip = \<lparr>IfIndex = idx, PeerIP = ip\<rparr>"

text \<open>
  The provider's map \<open>rpcProbes\<close>, with the calls of \<open>Load\<close> and \<open>Close\<close> made so far,
  oldest first.
\<close>

record provider =
  rpcProbes :: "int \<rightharpoonup> Ebpf"
  loaded :: "Ebpf list"
  closed :: "Ebpf list"

text \<open>
  \<open>proj.Load(spec)\<close> is outside the sources: its result is a parameter, a function of
  the probe and of the loads made before, \<open>None\<close> for a \<open>nil\<close> error.

  \<open>log.Fatalf\<close> prints and calls \<open>os.Exit(1)\<close>: the process ends, \<open>Exited\<close> with the
  state it ended in. \<open>panic\<close> is \<open>Panicked\<close>. \<open>Running\<close> is the state of the loop once
  it has handled the events given.
\<close>

type_synonym load = "Ebpf list \<Rightarrow> Ebpf \<Rightarrow> error option"

datatype outcome = Running provider | Exited provider | Panicked error

text \<open>Lines 54 to 60: one veth of the initial list.\<close>

definition attach_veth :: "load \<Rightarrow> veth \<Rightarrow> provider \<Rightarrow> outcome" where
  "attach_veth Load v p =
     (let proj = NewEbpf (Index v) (IP v);
          p' = p\<lparr>loaded := loaded p @ [proj]\<rparr>
      in case Load (loaded p) proj of
           Some err \<Rightarrow> Exited p'
         | None \<Rightarrow> Running (p'\<lparr>rpcProbes := (rpcProbes p')(Index v \<mapsto> proj)\<rparr>))"

fun attach_vethes :: "load \<Rightarrow> veth list \<Rightarrow> provider \<Rightarrow> outcome" where
  "attach_vethes Load [] p = Running p"
| "attach_vethes Load (v # vs) p =
     (case attach_veth Load v p of
        Running p' \<Rightarrow> attach_vethes Load vs p'
      | other \<Rightarrow> other)"

text \<open>Lines 67 to 92: one event of the listener.\<close>

definition handle_event :: "load \<Rightarrow> event \<Rightarrow> provider \<Rightarrow> outcome" where
  "handle_event Load e p =
     (case Type e of
        LinkAdd \<Rightarrow>
          (case rpcProbes p (Index e) of
             Some _ \<Rightarrow> Running p
           | None \<Rightarrow>
               (let proj = NewEbpf (Index e) (IP e);
                    p' = p\<lparr>loaded := loaded p @ [proj]\<rparr>
                in case Load (loaded p) proj of
                     Some err \<Rightarrow> Exited p'
                   | None \<Rightarrow> Running (p'\<lparr>rpcProbes := (rpcProbes p')(Index e \<mapsto> proj)\<rparr>)))
      | LinkDelete \<Rightarrow>
          (case rpcProbes p (Index e) of
             Some proj \<Rightarrow>
               Running (p\<lparr>closed := closed p @ [proj],
                          rpcProbes := (rpcProbes p)(Index e := None)\<rparr>)
           | None \<Rightarrow> Running p)
      | UnknownType _ \<Rightarrow> Running p)"

text \<open>The \<open>for\<close>/\<open>select\<close> loop, over the events the listener delivers.\<close>

fun event_loop :: "load \<Rightarrow> event list \<Rightarrow> provider \<Rightarrow> outcome" where
  "event_loop Load [] p = Running p"
| "event_loop Load (e # es) p =
     (case handle_event Load e p of
        Running p' \<Rightarrow> event_loop Load es p'
      | other \<Rightarrow> other)"

text \<open>
  \<open>Init\<close> and \<open>Gather\<close>. \<open>spec_err\<close> is the error of \<open>LoadCollectionSpecFromReader\<close>,
  \<open>vethes\<close> the result of \<open>GetVethes\<close>. The goroutine \<open>sendMetrics\<close> started at line 62
  shares no state with the loop but the channel the probes write to.
\<close>

definition Init :: provider where
  "Init = \<lparr>rpcProbes = Map.empty, loaded = [], closed = []\<rparr>"

definition Gather :: "load \<Rightarrow> error option \<Rightarrow> error + veth list \<Rightarrow> event list \<Rightarrow> provider \<Rightarrow> outcome" where
  "Gather Load spec_err vethes events p =
     (case spec_err of
        Some err \<Rightarrow> Panicked err
      | None \<Rightarrow>
          (case vethes of
             Inl err \<Rightarrow> Panicked err
           | Inr vs \<Rightarrow>
               (case attach_vethes Load vs p of
                  Running p' \<Rightarrow> event_loop Load events p'
                | other \<Rightarrow> other)))"

section \<open>Example inputs\<close>

text \<open>
  A small directory: two pods and a service, the raw events of the scenarios S1 to S5
  of the specification, and an interface whose probe does not load.
\<close>

definition pod_a :: Pod where
  "pod_a =
     \<lparr>Pod.Namespace = ''default'', Name = ''client-0'', UID = ''uid-a'',
      Labels = [''DICE_ORG_NAME'' \<mapsto> ''acme'', ''DICE_APPLICATION_ID'' \<mapsto> ''11'',
                ''DICE_SERVICE_NAME'' \<mapsto> ''client''],
      Annotations = [''msp.erda.cloud/runtime_name'' \<mapsto> ''master''],
      HostIP = ''192.168.0.1''\<rparr>"

definition pod_b :: Pod where
  "pod_b =
     \<lparr>Pod.Namespace = ''default'', Name = ''server-0'', UID = ''uid-b'',
      Labels = [''DICE_ORG_NAME'' \<mapsto> ''acme'', ''DICE_APPLICATION_ID'' \<mapsto> ''12'',
                ''DICE_SERVICE_NAME'' \<mapsto> ''server''],
      Annotations = [''msp.erda.cloud/runtime_name'' \<mapsto> ''master''],
      HostIP = ''192.168.0.2''\<rparr>"

definition svc_c :: Service where
  "svc_c = \<lparr>Service.Namespace = ''default'', Name = ''server''\<rparr>"

definition directory :: kprobe where
  "directory =
     \<lparr>GetPodByUID = (\<lambda>ip. if ip = ''10.0.0.1'' then Inr pod_a
                          else if ip = ''10.0.0.2'' then Inr pod_b
                          else Inl ''not found''),
      GetService = (\<lambda>ip. if ip = ''10.0.0.3'' then Inr svc_c else Inl ''not found'')\<rparr>"

definition empty_directory :: kprobe where
  "empty_directory =
     \<lparr>GetPodByUID = (\<lambda>ip. Inl ''not found''), GetService = (\<lambda>ip. Inl ''not found'')\<rparr>"

definition http_s1 :: HttpMetric where
  "http_s1 =
     \<lparr>Method = ''GET'', Path = ''/api'', Version = ''HTTP/1.1'', StatusCode = 200,
      SourceIP = ''10.0.0.1'', DestIP = ''10.0.0.2'', DestPort = 8080\<rparr>"

definition http_s2 :: HttpMetric where
  "http_s2 = http_s1\<lparr>DestIP := ''93.184.216.34''\<rparr>"

definition http_s3 :: HttpMetric where
  "http_s3 = http_s1\<lparr>StatusCode := 500\<rparr>"

definition http_to_service :: HttpMetric where
  "http_to_service = http_s1\<lparr>DestIP := ''10.0.0.3''\<rparr>"

definition http_unknown_source :: HttpMetric where
  "http_unknown_source = http_s1\<lparr>SourceIP := ''10.9.9.9''\<rparr>"

definition rpc_s4 :: RpcMetric where
  "rpc_s4 =
     \<lparr>Path = ''2.0.0!com.acme.Svc1.0.0/hello'', Status = ''20'',
      SrcIP = ''10.0.0.2'', SrcPort = 20880, DstIP = ''10.0.0.1'', DstPort = 40000,
      Duration = 1500, RpcType = ''dubbo''\<rparr>"

definition rpc_s5 :: RpcMetric where
  "rpc_s5 = rpc_s4\<lparr>Path := ''weird'', Status := ''200'', RpcType := ''http''\<rparr>"

definition veth7 :: event where
  "veth7 = \<lparr>Index = 7, IP = ''10.0.0.7'', Type = LinkAdd\<rparr>"

definition veth8 :: event where
  "veth8 = \<lparr>Index = 8, IP = ''10.0.0.8'', Type = LinkAdd\<rparr>"

definition load_ok :: load where
  "load_ok before proj = None"

definition load_fails_on_7 :: load where
  "load_fails_on_7 before proj = (if IfIndex proj = 7 then Some ''load failed'' else None)"

section \<open>Frame lemmas for tags\<close>

lemmas example_defs =
  pod_a_def pod_b_def svc_c_def directory_def empty_directory_def
  http_s1_def http_s2_def http_s3_def http_to_service_def http_unknown_source_def
  rpc_s4_def rpc_s5_def

lemmas re_defs = match_here_def star_def plus_def any_char_def class_service_def class_version_def class_method_def letter_def

lemma Tags_set_tag: "Tags (set_tag k v out) = (Tags out)(k \<mapsto> v)"
  by (simp add: set_tag_def)

lemma Measurement_set_tag: "Measurement (set_tag k v out) = Measurement out"
  by (simp add: set_tag_def)

lemma Name_set_tag: "Metric.Name (set_tag k v out) = Metric.Name out"
  by (simp add: set_tag_def)

lemma Measurement_http_pod_arm: "Measurement (http_pod_arm m s t out) = Measurement out"
  by (simp add: http_pod_arm_def Let_def Measurement_set_tag)

lemma Name_http_pod_arm: "Metric.Name (http_pod_arm m s t out) = Metric.Name out"
  by (simp add: http_pod_arm_def Let_def Name_set_tag)

text \<open>The \<open>corev1.Pod\<close> arm assigns the keys of \<open>http_pod_keys\<close> and no other.\<close>

lemma Tags_http_pod_arm_other:
  "k \<notin> set http_pod_keys \<Longrightarrow> Tags (http_pod_arm m s t out) k = Tags out k"
  by (simp add: http_pod_keys_def http_pod_arm_def Let_def Tags_set_tag)

lemma dom_Tags_http_pod_arm:
  "dom (Tags (http_pod_arm m s t out)) = dom (Tags out) \<union> set http_pod_keys"
  by (simp add: http_pod_keys_def http_pod_arm_def Let_def Tags_set_tag insert_commute)

lemma common_not_in_http_pod_keys:
  "''metric_source'' \<notin> set http_pod_keys" "''_meta'' \<notin> set http_pod_keys"
  "''_metric_scope'' \<notin> set http_pod_keys" "''span_kind'' \<notin> set http_pod_keys"
  by (simp_all add: http_pod_keys_def)

text \<open>The blocks of \<open>convertRpc2Metric\<close>, key by key.\<close>

lemma Tags_rpc_res:
  "Tags (rpc_res now m) =
     [''metric_source'' \<mapsto> ''ebpf'', ''_meta'' \<mapsto> ''true'', ''_metric_scope'' \<mapsto> ''micro_service'']"
  by (simp add: rpc_res_def Let_def Tags_set_tag)

lemma Tags_rpc_framing_tags_other:
  "k \<notin> set rpc_framing_keys \<Longrightarrow> Tags (rpc_framing_tags D m me se ve sv res) k = Tags res k"
  by (simp add: rpc_framing_keys_def rpc_framing_tags_def Let_def Tags_set_tag)

lemma Tags_rpc_framing_tags_error:
  "Tags (rpc_framing_tags D m me se ve sv res) ''error'' =
     Some (if RpcType m = D then (if Status m = ''20'' then ''false'' else ''true'')
           else (if Status m = ''200'' then ''false'' else ''true''))"
  by (simp add: rpc_framing_tags_def Let_def Tags_set_tag)

lemma Tags_rpc_framing_tags_dubbo:
  "Tags (rpc_framing_tags D m me se ve sv res) ''dubbo_method'' =
     (if RpcType m = D then Some me else Tags res ''dubbo_method'')"
  "Tags (rpc_framing_tags D m me se ve sv res) ''dubbo_service'' =
     (if RpcType m = D then Some se else Tags res ''dubbo_service'')"
  "Tags (rpc_framing_tags D m me se ve sv res) ''dubbo_version'' =
     (if RpcType m = D then Some ve else Tags res ''dubbo_version'')"
  "Tags (rpc_framing_tags D m me se ve sv res) ''service_version'' =
     (if RpcType m = D then Some sv else Tags res ''service_version'')"
  by (simp_all add: rpc_framing_tags_def Let_def Tags_set_tag)

lemma Tags_rpc_target_block_other:
  "k \<notin> set rpc_target_keys \<Longrightarrow> k \<notin> set rpc_framing_keys \<Longrightarrow>
   Tags (rpc_target_block D m me se ve sv pod res) k = Tags res k"
  by (simp add: rpc_target_keys_def rpc_target_block_def Let_def Tags_set_tag
      Tags_rpc_framing_tags_other)

lemma Tags_rpc_target_block_framing:
  "Tags (rpc_target_block D m me se ve sv pod res) ''error'' =
   Tags (rpc_framing_tags D m me se ve sv res) ''error''"
  "Tags (rpc_target_block D m me se ve sv pod res) ''service_version'' =
   (if RpcType m = D then Some sv else Tags res ''service_version'')"
  "Tags (rpc_target_block D m me se ve sv pod res) ''dubbo_method'' =
   (if RpcType m = D then Some me else Tags res ''dubbo_method'')"
  "Tags (rpc_target_block D m me se ve sv pod res) ''dubbo_service'' =
   (if RpcType m = D then Some se else Tags res ''dubbo_service'')"
  "Tags (rpc_target_block D m me se ve sv pod res) ''dubbo_version'' =
   (if RpcType m = D then Some ve else Tags res ''dubbo_version'')"
  by (simp_all add: rpc_target_block_def Let_def Tags_set_tag
      Tags_rpc_framing_tags_error Tags_rpc_framing_tags_dubbo)

lemma Tags_rpc_target_block_span_kind:
  "Tags (rpc_target_block D m me se ve sv pod res) ''span_kind'' = Some ''server''"
  by (simp add: rpc_target_block_def Let_def Tags_set_tag)

lemma Tags_rpc_target_block_rpc:
  "Tags (rpc_target_block D m me se ve sv pod res) ''rpc_method'' =
     Some (if RpcType m = D then me else index (Tags res) ''dubbo_method'')"
  "Tags (rpc_target_block D m me se ve sv pod res) ''rpc_service'' =
     Some (if RpcType m = D then se else index (Tags res) ''dubbo_service'')"
  by (simp_all add: rpc_target_block_def Let_def Tags_set_tag index_def
      Tags_rpc_framing_tags_dubbo)

lemma Tags_rpc_source_block_other:
  "k \<notin> set rpc_source_keys \<Longrightarrow> Tags (rpc_source_block pod res) k = Tags res k"
  by (simp add: rpc_source_keys_def rpc_source_block_def Let_def Tags_set_tag)

lemma not_in_keys:
  "''rpc_target'' \<notin> set rpc_target_keys" "''rpc_target'' \<notin> set rpc_framing_keys"
  "''rpc_target'' \<notin> set rpc_source_keys"
  "''rpc_version'' \<notin> set rpc_target_keys" "''rpc_version'' \<notin> set rpc_framing_keys"
  "''rpc_version'' \<notin> set rpc_source_keys"
  "''rpc_service'' \<notin> set rpc_source_keys" "''rpc_method'' \<notin> set rpc_source_keys"
  "''service_version'' \<notin> set rpc_source_keys" "''dubbo_version'' \<notin> set rpc_source_keys"
  "''error'' \<notin> set rpc_source_keys" "''span_kind'' \<notin> set rpc_source_keys"
  "''metric_source'' \<notin> set rpc_target_keys" "''metric_source'' \<notin> set rpc_framing_keys"
  "''metric_source'' \<notin> set rpc_source_keys"
  "''_meta'' \<notin> set rpc_target_keys" "''_meta'' \<notin> set rpc_framing_keys"
  "''_meta'' \<notin> set rpc_source_keys"
  "''_metric_scope'' \<notin> set rpc_target_keys" "''_metric_scope'' \<notin> set rpc_framing_keys"
  "''_metric_scope'' \<notin> set rpc_source_keys"
  by (simp_all add: rpc_target_keys_def rpc_framing_keys_def rpc_source_keys_def)

text \<open>
  The source block leaves every other key as the first lookup left it.
\<close>

lemma Tags_convertRpc2Metric_source_frame:
  "k' \<notin> set rpc_source_keys \<Longrightarrow>
   Tags (convertRpc2Metric D k now m) k' =
     (case parse_path (RpcMetric.Path m) of
        (rpcTarget, rpcMethod, rpcService, rpcVersion, serviceVersion) \<Rightarrow>
          (case GetPodByUID k (SrcIP m) of
             Inl err \<Rightarrow> Tags (set_tag ''rpc_target'' rpcTarget (rpc_res now m)) k'
           | Inr targetPod \<Rightarrow>
               Tags (rpc_target_block D m rpcMethod rpcService rpcVersion serviceVersion
                 targetPod (set_tag ''rpc_target'' rpcTarget (rpc_res now m))) k'))"
  by (simp add: convertRpc2Metric_def Let_def Tags_rpc_source_block_other
      split: prod.splits sum.splits)

section \<open>The matcher against the pattern\<close>

lemma greedy_iff: "(p, r) \<in> set (greedy P s) \<longleftrightarrow> s = p @ r \<and> list_all P p"
proof (induction s arbitrary: p)
  case Nil
  show ?case by auto
next
  case (Cons c cs)
  show ?case
  proof (cases p)
    case Nil
    then show ?thesis by auto
  next
    case (Cons a p')
    have "(a # p', r) \<in> (\<lambda>(p, r). (c # p, r)) ` set (greedy P cs) \<longleftrightarrow>
        a = c \<and> (p', r) \<in> set (greedy P cs)"
      by force
    with Cons Cons.IH [of p'] show ?thesis by auto
  qed
qed

lemma plus_iff: "(p, r) \<in> set (plus P s) \<longleftrightarrow> s = p @ r \<and> list_all P p \<and> p \<noteq> []"
  by (auto simp: plus_def greedy_iff)

lemma in_concat_map_pair:
  "r \<in> set (concat (map (\<lambda>(a, b). f a b) xs)) \<longleftrightarrow> (\<exists>a b. (a, b) \<in> set xs \<and> r \<in> set (f a b))"
  by force

lemma in_map_pair:
  "r \<in> set (map (\<lambda>(a, b). f a b) xs) \<longleftrightarrow> (\<exists>a b. (a, b) \<in> set xs \<and> r = f a b)"
  by force

lemma in_guard:
  "r \<in> set (concat (map (\<lambda>c. if c = x then f c else []) (take 1 b))) \<longleftrightarrow>
     (\<exists>rest. b = x # rest \<and> r \<in> set (f x))"
  by (cases b) auto

lemma match_here_mem:
  "r \<in> set (match_here s) \<longleftrightarrow>
     (\<exists>g1 r1 g2 r2 g3 r3 g4 r4.
        (g1, CHR ''!'' # r1) \<in> set (greedy any_char s)
        \<and> (g2, r2) \<in> set (plus class_service r1)
        \<and> (g3, r3) \<in> set (plus class_version r2)
        \<and> (g4, r4) \<in> set (plus class_method r3)
        \<and> r = [g1 @ ''!'' @ g2 @ g3 @ g4, g1, g2, g3, g4])"
  (is "?L \<longleftrightarrow> ?R")
proof
  assume ?L
  then obtain g1 b rest g2 r2 g3 r3 g4 r4 where
    a: "(g1, b) \<in> set (greedy any_char s)" "b = CHR ''!'' # rest"
    "(g2, r2) \<in> set (plus class_service (drop 1 b))"
    "(g3, r3) \<in> set (plus class_version r2)" "(g4, r4) \<in> set (plus class_method r3)"
    "r = [g1 @ ''!'' @ g2 @ g3 @ g4, g1, g2, g3, g4]"
    unfolding match_here_def star_def in_concat_map_pair in_guard in_map_pair by blast
  from a(1,2) have 1: "(g1, CHR ''!'' # rest) \<in> set (greedy any_char s)" by simp
  from a(2,3) have 2: "(g2, r2) \<in> set (plus class_service rest)" by simp
  from 1 2 a(4,5,6) show ?R by blast
next
  assume ?R
  then obtain g1 r1 g2 r2 g3 r3 g4 r4 where
    a: "(g1, CHR ''!'' # r1) \<in> set (greedy any_char s)"
    "(g2, r2) \<in> set (plus class_service r1)"
    "(g3, r3) \<in> set (plus class_version r2)" "(g4, r4) \<in> set (plus class_method r3)"
    "r = [g1 @ ''!'' @ g2 @ g3 @ g4, g1, g2, g3, g4]"
    by blast
  from a(2) have 2: "(g2, r2) \<in> set (plus class_service (drop 1 (CHR ''!'' # r1)))" by simp
  have "\<exists>a b. (a, b) \<in> set (greedy any_char s) \<and>
          (\<exists>rest. b = CHR ''!'' # rest \<and>
             (\<exists>aa ba. (aa, ba) \<in> set (plus class_service (drop 1 b)) \<and>
                (\<exists>ab b. (ab, b) \<in> set (plus class_version ba) \<and>
                   (\<exists>ac ba. (ac, ba) \<in> set (plus class_method b) \<and>
                      r = [a @ ''!'' @ aa @ ab @ ac, a, aa, ab, ac]))))"
    using a(1) 2 a(3,4,5) by blast
  then show ?L
    unfolding match_here_def star_def in_concat_map_pair in_guard in_map_pair .
qed

lemma match_here_iff:
  "r \<in> set (match_here s) \<longleftrightarrow>
     (\<exists>g1 g2 g3 g4 post. r = [g1 @ ''!'' @ g2 @ g3 @ g4, g1, g2, g3, g4]
        \<and> s = g1 @ ''!'' @ g2 @ g3 @ g4 @ post \<and> regex_groups g1 g2 g3 g4)"
  (is "?L \<longleftrightarrow> ?R")
proof
  assume ?L
  then obtain g1 r1 g2 r2 g3 r3 g4 r4 where
    a: "(g1, CHR ''!'' # r1) \<in> set (greedy any_char s)"
    "(g2, r2) \<in> set (plus class_service r1)"
    "(g3, r3) \<in> set (plus class_version r2)" "(g4, r4) \<in> set (plus class_method r3)"
    and r: "r = [g1 @ ''!'' @ g2 @ g3 @ g4, g1, g2, g3, g4]"
    unfolding match_here_mem by blast
  from a have "s = g1 @ ''!'' @ g2 @ g3 @ g4 @ r4" "regex_groups g1 g2 g3 g4"
    by (simp_all add: greedy_iff plus_iff regex_groups_def)
  with r show ?R by blast
next
  assume ?R
  then obtain g1 g2 g3 g4 post where r: "r = [g1 @ ''!'' @ g2 @ g3 @ g4, g1, g2, g3, g4]"
    and s: "s = g1 @ ''!'' @ g2 @ g3 @ g4 @ post" and g: "regex_groups g1 g2 g3 g4"
    by blast
  from s g have "(g1, CHR ''!'' # g2 @ g3 @ g4 @ post) \<in> set (greedy any_char s)"
    "(g2, g3 @ g4 @ post) \<in> set (plus class_service (g2 @ g3 @ g4 @ post))"
    "(g3, g4 @ post) \<in> set (plus class_version (g3 @ g4 @ post))"
    "(g4, post) \<in> set (plus class_method (g4 @ post))"
    by (simp_all add: greedy_iff plus_iff regex_groups_def)
  with r show ?L unfolding match_here_mem by blast
qed

lemma match_here_Nil: "match_here [] = []"
  by (simp add: match_here_def star_def)

text \<open>
  \<open>FindStringSubmatch\<close> returns the first match of the search at the leftmost position
  that has one, and \<open>nil\<close> when no position has one.
\<close>

lemma FindStringSubmatch_leftmost:
  "(FindStringSubmatch s = [] \<and> (\<forall>n \<le> length s. match_here (drop n s) = []))
   \<or> (\<exists>n \<le> length s. (\<forall>i < n. match_here (drop i s) = [])
        \<and> match_here (drop n s) \<noteq> []
        \<and> FindStringSubmatch s = hd (match_here (drop n s)))"
proof (induction s)
  case Nil
  show ?case by (simp add: FindStringSubmatch.simps match_here_Nil)
next
  case (Cons c cs)
  show ?case
  proof (cases "match_here (c # cs)")
    case (Cons r rs)
    then have "match_here (drop 0 (c # cs)) \<noteq> []"
      "FindStringSubmatch (c # cs) = hd (match_here (drop 0 (c # cs)))"
      by (simp_all add: FindStringSubmatch.simps)
    then show ?thesis by blast
  next
    case Nil
    then have eq: "FindStringSubmatch (c # cs) = FindStringSubmatch cs"
      by (simp add: FindStringSubmatch.simps)
    from Cons.IH show ?thesis
    proof
      assume a: "FindStringSubmatch cs = [] \<and> (\<forall>n \<le> length cs. match_here (drop n cs) = [])"
      have "match_here (drop n (c # cs)) = []" if "n \<le> length (c # cs)" for n
        using that a Nil by (cases n) auto
      with a eq show ?thesis by simp
    next
      assume "\<exists>n \<le> length cs. (\<forall>i < n. match_here (drop i cs) = [])
        \<and> match_here (drop n cs) \<noteq> []
        \<and> FindStringSubmatch cs = hd (match_here (drop n cs))"
      then obtain n where n: "n \<le> length cs" "\<forall>i < n. match_here (drop i cs) = []"
        "match_here (drop n cs) \<noteq> []" "FindStringSubmatch cs = hd (match_here (drop n cs))"
        by blast
      have "match_here (drop i (c # cs)) = []" if "i < Suc n" for i
        using that n(2) Nil by (cases i) auto
      moreover have "Suc n \<le> length (c # cs)" "match_here (drop (Suc n) (c # cs)) \<noteq> []"
        "FindStringSubmatch (c # cs) = hd (match_here (drop (Suc n) (c # cs)))"
        using n eq by simp_all
      ultimately show ?thesis by blast
    qed
  qed
qed

lemma hd_match_here_length: "match_here t \<noteq> [] \<Longrightarrow> length (hd (match_here t)) = 5"
proof -
  assume "match_here t \<noteq> []"
  then have "hd (match_here t) \<in> set (match_here t)" by simp
  then show ?thesis unfolding match_here_iff by auto
qed

lemma FindStringSubmatch_length:
  "FindStringSubmatch s = [] \<or> length (FindStringSubmatch s) = 5"
  using FindStringSubmatch_leftmost [of s] hd_match_here_length by auto

text \<open>
  The slice has length 5 exactly when some part of the string matches the pattern, and
  then it holds the match and its four groups.
\<close>

lemma FindStringSubmatch_matches_iff:
  "length (FindStringSubmatch s) = 5 \<longleftrightarrow>
     (\<exists>pre g1 g2 g3 g4 post.
        s = pre @ g1 @ ''!'' @ g2 @ g3 @ g4 @ post \<and> regex_groups g1 g2 g3 g4)"
  (is "?L \<longleftrightarrow> ?R")
proof
  assume ?L
  with FindStringSubmatch_leftmost [of s] obtain n where
    n: "match_here (drop n s) \<noteq> []" by auto
  then have "hd (match_here (drop n s)) \<in> set (match_here (drop n s))" by simp
  then obtain g1 g2 g3 g4 post where
    "drop n s = g1 @ ''!'' @ g2 @ g3 @ g4 @ post" "regex_groups g1 g2 g3 g4"
    unfolding match_here_iff by blast
  moreover have "s = take n s @ drop n s" by simp
  ultimately show ?R by metis
next
  assume ?R
  then obtain pre g1 g2 g3 g4 post where
    s: "s = pre @ g1 @ ''!'' @ g2 @ g3 @ g4 @ post" and g: "regex_groups g1 g2 g3 g4"
    by blast
  then have "[g1 @ ''!'' @ g2 @ g3 @ g4, g1, g2, g3, g4] \<in> set (match_here (drop (length pre) s))"
    unfolding match_here_iff by auto
  then have "match_here (drop (length pre) s) \<noteq> []" by auto
  moreover from s have "length pre \<le> length s" by simp
  ultimately have "FindStringSubmatch s \<noteq> []"
    using FindStringSubmatch_leftmost [of s] hd_match_here_length by fastforce
  with FindStringSubmatch_length [of s] show ?L by simp
qed

lemma FindStringSubmatch_groups:
  assumes "length (FindStringSubmatch s) = 5"
  shows "\<exists>pre g1 g2 g3 g4 post.
     FindStringSubmatch s = [g1 @ ''!'' @ g2 @ g3 @ g4, g1, g2, g3, g4]
     \<and> s = pre @ g1 @ ''!'' @ g2 @ g3 @ g4 @ post \<and> regex_groups g1 g2 g3 g4"
proof -
  from assms FindStringSubmatch_leftmost [of s] obtain n where
    n: "match_here (drop n s) \<noteq> []" "FindStringSubmatch s = hd (match_here (drop n s))"
    by auto
  then have "FindStringSubmatch s \<in> set (match_here (drop n s))" by simp
  then obtain g1 g2 g3 g4 post where
    "FindStringSubmatch s = [g1 @ ''!'' @ g2 @ g3 @ g4, g1, g2, g3, g4]"
    "drop n s = g1 @ ''!'' @ g2 @ g3 @ g4 @ post" "regex_groups g1 g2 g3 g4"
    unfolding match_here_iff by blast
  moreover have "s = take n s @ drop n s" by simp
  ultimately show ?thesis by metis
qed

section \<open>The examples, evaluated\<close>

lemma Convert_s1_emits: "\<exists>out. Convert directory now http_s1 = Some out"
  by (simp add: Convert_def resolve_target_def example_defs)

lemma Convert_s3_emits: "\<exists>out. Convert directory now http_s3 = Some out"
  by (simp add: Convert_def resolve_target_def example_defs)

lemma FindStringSubmatch_s4:
  "FindStringSubmatch ''2.0.0!com.acme.Svc1.0.0/hello'' =
     [''2.0.0!com.acme.Svc1.0.0/hello'', ''2.0.0'', ''com.acme.Svc'', ''1.0.0'', ''/hello'']"
  by (simp add: FindStringSubmatch.simps re_defs)

lemma FindStringSubmatch_s5: "FindStringSubmatch ''weird'' = []"
  by (simp add: FindStringSubmatch.simps re_defs)

section \<open>Lemmas on the registry loop\<close>

lemma handle_event_Add_present:
  "Type e = LinkAdd \<Longrightarrow> rpcProbes p (Index e) = Some proj \<Longrightarrow> handle_event Load e p = Running p"
  by (simp add: handle_event_def)

lemma event_loop_Adds_present:
  "\<forall>e \<in> set es. Type e = LinkAdd \<and> rpcProbes p (Index e) \<noteq> None \<Longrightarrow>
   event_loop Load es p = Running p"
  by (induction es) (auto simp: handle_event_Add_present)

lemma handle_event_Add_absent:
  "Type e = LinkAdd \<Longrightarrow> rpcProbes p (Index e) = None \<Longrightarrow>
   handle_event Load e p =
     (case Load (loaded p) (NewEbpf (Index e) (IP e)) of
        Some err \<Rightarrow> Exited (p\<lparr>loaded := loaded p @ [NewEbpf (Index e) (IP e)]\<rparr>)
      | None \<Rightarrow> Running (p\<lparr>loaded := loaded p @ [NewEbpf (Index e) (IP e)],
                            rpcProbes := (rpcProbes p)(Index e \<mapsto> NewEbpf (Index e) (IP e))\<rparr>))"
  by (simp add: handle_event_def Let_def split: option.splits)

lemma event_loop_append:
  "event_loop Load (xs @ ys) p =
     (case event_loop Load xs p of Running p' \<Rightarrow> event_loop Load ys p' | other \<Rightarrow> other)"
  by (induction xs arbitrary: p) (auto split: outcome.splits)

lemma attach_vethes_append:
  "attach_vethes Load (xs @ ys) p =
     (case attach_vethes Load xs p of Running p' \<Rightarrow> attach_vethes Load ys p' | other \<Rightarrow> other)"
  by (induction xs arbitrary: p) (auto split: outcome.splits)

lemma Gather_Running:
  "Gather Load spec_err vethes events p0 = Running p \<longleftrightarrow>
     spec_err = None \<and>
     (\<exists>vs p1. vethes = Inr vs \<and> attach_vethes Load vs p0 = Running p1
        \<and> event_loop Load events p1 = Running p)"
  by (auto simp: Gather_def split: option.splits sum.splits outcome.splits)

section \<open>Load failures and repeated Adds\<close>

text \<open>
  C1, as the code has it. The claim is that a failed load is logged and the loop goes on.
  Both loads of \<open>Gather\<close> end in \<open>log.Fatalf\<close>, which exits the process: when the load
  of a probe fails, for a veth of the initial list or for an Add event of an interface
  that has no probe, \<open>Gather\<close> ends there. The failed probe is not entered in the map,
  the map is as it was, and no later veth or event is handled.
\<close>

theorem Gather_load_failure_exits:
  assumes "Load (loaded p) (NewEbpf idx ip) = Some err"
  shows "(Gather Load spec_err vethes pre p0 = Running p \<and> rpcProbes p idx = None \<longrightarrow>
            Gather Load spec_err vethes (pre @ \<lparr>Index = idx, IP = ip, Type = LinkAdd\<rparr> # es) p0 =
              Exited (p\<lparr>loaded := loaded p @ [NewEbpf idx ip]\<rparr>))
       \<and> (attach_vethes Load vs p0 = Running p \<longrightarrow>
            Gather Load None (Inr (vs @ \<lparr>Index = idx, IP = ip\<rparr> # vs')) es p0 =
              Exited (p\<lparr>loaded := loaded p @ [NewEbpf idx ip]\<rparr>))"
proof (intro conjI impI)
  let ?e = "\<lparr>Index = idx, IP = ip, Type = LinkAdd\<rparr>"
  assume "Gather Load spec_err vethes pre p0 = Running p \<and> rpcProbes p idx = None"
  then obtain vs1 p1 where g: "spec_err = None" "vethes = Inr vs1"
    "attach_vethes Load vs1 p0 = Running p1" "event_loop Load pre p1 = Running p"
    and absent: "rpcProbes p idx = None"
    by (auto simp: Gather_Running)
  from absent assms have "handle_event Load ?e p = Exited (p\<lparr>loaded := loaded p @ [NewEbpf idx ip]\<rparr>)"
    by (simp add: handle_event_Add_absent)
  with g show "Gather Load spec_err vethes (pre @ ?e # es) p0 =
      Exited (p\<lparr>loaded := loaded p @ [NewEbpf idx ip]\<rparr>)"
    by (simp add: Gather_def event_loop_append)
next
  assume "attach_vethes Load vs p0 = Running p"
  with assms show "Gather Load None (Inr (vs @ \<lparr>Index = idx, IP = ip\<rparr> # vs')) es p0 =
      Exited (p\<lparr>loaded := loaded p @ [NewEbpf idx ip]\<rparr>)"
    by (simp add: Gather_def attach_vethes_append attach_veth_def Let_def)
qed

text \<open>
  The claim fails: the load for interface 7 fails, and the Add of interface 8 that
  follows is never handled, although its load would succeed; a probe loaded before is
  still in the map but the process has exited.
\<close>

theorem Gather_load_failure_exits_counterexample:
  "load_fails_on_7 [] (NewEbpf 7 ''10.0.0.7'') = Some ''load failed''
   \<and> load_fails_on_7 [NewEbpf 7 ''10.0.0.7''] (NewEbpf 8 ''10.0.0.8'') = None
   \<and> Gather load_fails_on_7 None (Inr []) [veth7, veth8] Init =
       Exited \<lparr>rpcProbes = Map.empty, loaded = [NewEbpf 7 ''10.0.0.7''], closed = []\<rparr>
   \<and> Gather load_fails_on_7 None (Inr []) [veth8, veth7, veth8\<lparr>Type := LinkDelete\<rparr>] Init =
       Exited \<lparr>rpcProbes = [8 \<mapsto> NewEbpf 8 ''10.0.0.8''],
               loaded = [NewEbpf 8 ''10.0.0.8'', NewEbpf 7 ''10.0.0.7''], closed = []\<rparr>"
  by (simp add: Gather_def handle_event_def Let_def veth7_def veth8_def load_fails_on_7_def
      Init_def NewEbpf_def)

theorem Gather_load_failure_exits_witness:
  "Gather load_fails_on_7 None (Inr []) [veth8, veth7, veth8\<lparr>Type := LinkDelete\<rparr>] Init =
     Exited \<lparr>rpcProbes = [8 \<mapsto> NewEbpf 8 ''10.0.0.8''],
             loaded = [NewEbpf 8 ''10.0.0.8'', NewEbpf 7 ''10.0.0.7''], closed = []\<rparr>
   \<and> Gather load_fails_on_7 None (Inr [\<lparr>Index = 7, IP = ''10.0.0.7''\<rparr>, \<lparr>Index = 8, IP = ''10.0.0.8''\<rparr>])
       [] Init =
     Exited \<lparr>rpcProbes = Map.empty, loaded = [NewEbpf 7 ''10.0.0.7''], closed = []\<rparr>"
proof -
  let ?p = "\<lparr>rpcProbes = [8 \<mapsto> NewEbpf 8 ''10.0.0.8''], loaded = [NewEbpf 8 ''10.0.0.8''], closed = []\<rparr>"
  have a: "load_fails_on_7 (loaded ?p) (NewEbpf 7 ''10.0.0.7'') = Some ''load failed''"
    by (simp add: load_fails_on_7_def NewEbpf_def)
  have b: "load_fails_on_7 (loaded Init) (NewEbpf 7 ''10.0.0.7'') = Some ''load failed''"
    by (simp add: load_fails_on_7_def NewEbpf_def)
  have pre: "Gather load_fails_on_7 None (Inr []) [veth8] Init = Running ?p"
    by (simp add: Gather_def handle_event_def Let_def veth8_def load_fails_on_7_def Init_def
        NewEbpf_def)
  have ini: "attach_vethes load_fails_on_7 [] Init = Running Init"
    by simp
  from Gather_load_failure_exits [where Load = load_fails_on_7 and p = ?p and idx = 7
      and ip = "''10.0.0.7''" and err = "''load failed''" and spec_err = None
      and vethes = "Inr []" and pre = "[veth8]" and ?p0.0 = Init
      and es = "[veth8\<lparr>Type := LinkDelete\<rparr>]", OF a]
    Gather_load_failure_exits [where Load = load_fails_on_7 and p = Init and idx = 7
      and ip = "''10.0.0.7''" and err = "''load failed''" and vs = "[]" and ?p0.0 = Init
      and vs' = "[\<lparr>Index = 8, IP = ''10.0.0.8''\<rparr>]" and es = "[]", OF b]
    pre ini
  show ?thesis
    by (simp add: veth7_def veth8_def Init_def)
qed

text \<open>
  C8. An Add event for an interface that has a probe loads nothing and leaves the
  provider as it is. So a run of Add events for one interface makes exactly one call of
  \<open>Load\<close> when the interface had no probe (whether the load succeeds or ends the
  process), and none when it had one.
\<close>

theorem Add_idempotent:
  assumes "Type e = LinkAdd"
    and "\<forall>e' \<in> set es. Type e' = LinkAdd \<and> Index e' = Index e"
  shows "(rpcProbes p (Index e) \<noteq> None \<longrightarrow>
            handle_event Load e p = Running p \<and> event_loop Load (e # es) p = Running p)
       \<and> (rpcProbes p (Index e) = None \<longrightarrow>
            (\<exists>p'. (event_loop Load (e # es) p = Running p' \<or> event_loop Load (e # es) p = Exited p')
               \<and> loaded p' = loaded p @ [NewEbpf (Index e) (IP e)]
               \<and> closed p' = closed p))"
proof (intro conjI impI)
  assume present: "rpcProbes p (Index e) \<noteq> None"
  with assms(1) show "handle_event Load e p = Running p"
    by (auto simp: handle_event_Add_present)
  from present assms have "\<forall>e' \<in> set (e # es). Type e' = LinkAdd \<and> rpcProbes p (Index e') \<noteq> None"
    by simp
  then show "event_loop Load (e # es) p = Running p"
    by (rule event_loop_Adds_present)
next
  assume absent: "rpcProbes p (Index e) = None"
  let ?proj = "NewEbpf (Index e) (IP e)"
  show "\<exists>p'. (event_loop Load (e # es) p = Running p' \<or> event_loop Load (e # es) p = Exited p')
               \<and> loaded p' = loaded p @ [?proj] \<and> closed p' = closed p"
  proof (cases "Load (loaded p) ?proj")
    case (Some err)
    with assms(1) absent show ?thesis
      by (simp add: handle_event_Add_absent)
  next
    case None
    let ?p' = "p\<lparr>loaded := loaded p @ [?proj], rpcProbes := (rpcProbes p)(Index e \<mapsto> ?proj)\<rparr>"
    from None assms(1) absent have step: "handle_event Load e p = Running ?p'"
      by (simp add: handle_event_Add_absent)
    from assms(2) have "\<forall>e' \<in> set es. Type e' = LinkAdd \<and> rpcProbes ?p' (Index e') \<noteq> None"
      by simp
    then have "event_loop Load es ?p' = Running ?p'"
      by (rule event_loop_Adds_present)
    with step show ?thesis by simp
  qed
qed

theorem Add_idempotent_witness:
  "event_loop load_ok [veth7, veth7, veth7] Init =
     Running \<lparr>rpcProbes = [7 \<mapsto> NewEbpf 7 ''10.0.0.7''], loaded = [NewEbpf 7 ''10.0.0.7''], closed = []\<rparr>
   \<and> handle_event load_ok veth7
        \<lparr>rpcProbes = [7 \<mapsto> NewEbpf 7 ''10.0.0.7''], loaded = [NewEbpf 7 ''10.0.0.7''], closed = []\<rparr>
       = Running \<lparr>rpcProbes = [7 \<mapsto> NewEbpf 7 ''10.0.0.7''], loaded = [NewEbpf 7 ''10.0.0.7''], closed = []\<rparr>"
proof -
  let ?p = "\<lparr>rpcProbes = [7 \<mapsto> NewEbpf 7 ''10.0.0.7''], loaded = [NewEbpf 7 ''10.0.0.7''], closed = []\<rparr>"
  have a: "Type veth7 = LinkAdd" by (simp add: veth7_def)
  have b: "\<forall>e' \<in> set [veth7, veth7]. Type e' = LinkAdd \<and> Index e' = Index veth7"
    by (simp add: veth7_def)
  have c: "\<forall>e' \<in> set []. Type e' = LinkAdd \<and> Index e' = Index veth7"
    by simp
  have first: "event_loop load_ok [veth7, veth7, veth7] Init = Running ?p"
    by (simp add: handle_event_def Let_def veth7_def load_ok_def Init_def)
  from Add_idempotent [OF a b, of Init load_ok] Add_idempotent [OF a c, of ?p load_ok] first
  show ?thesis by (simp add: veth7_def)
qed

section \<open>Empty status or path\<close>

text \<open>
  C9. \<open>sendMetrics\<close> sends nothing for an event whose status or path is empty, and
  sends the converted metric of every other event, in the order of arrival.
\<close>

theorem sendMetrics_skips_empty:
  "sendMetrics D k ch c =
     c @ map (\<lambda>(now, m). convertRpc2Metric D k now m)
           (filter (\<lambda>(now, m). Status m \<noteq> [] \<and> RpcMetric.Path m \<noteq> []) ch)"
  by (induction D k ch c rule: sendMetrics.induct) simp_all

theorem sendMetrics_skips_empty_witness:
  "sendMetrics ''dubbo'' directory
     [(1, rpc_s4\<lparr>Status := []\<rparr>), (2, rpc_s4), (3, rpc_s5\<lparr>Path := []\<rparr>), (4, rpc_s5)] []
   = [convertRpc2Metric ''dubbo'' directory 2 rpc_s4, convertRpc2Metric ''dubbo'' directory 4 rpc_s5]"
  using sendMetrics_skips_empty [of "''dubbo''" directory
      "[(1, rpc_s4\<lparr>Status := []\<rparr>), (2, rpc_s4), (3, rpc_s5\<lparr>Path := []\<rparr>), (4, rpc_s5)]" "[]"]
  by (simp add: rpc_s4_def rpc_s5_def)

section \<open>RPC path and error tags\<close>

text \<open>
  C3, as the code has it. The tag \<open>rpc_target\<close> is \<open>g2.g4\<close> when the pattern matches
  (the slice has five components) and the path when it does not. No tag \<open>rpc_version\<close>
  is ever written: the first group goes to \<open>dubbo_version\<close>. The other derived tags are
  written only when the pod of \<open>SrcIP\<close> is found: with the Dubbo framing
  \<open>rpc_service\<close> is \<open>g2\<close>, \<open>rpc_method\<close> is \<open>g4\<close>, \<open>dubbo_version\<close> is \<open>g1\<close> and
  \<open>service_version\<close> is \<open>g3\<close>, each empty when the pattern does not match; with any
  other framing \<open>rpc_service\<close> and \<open>rpc_method\<close> are empty and the two version tags
  are absent. When the pod is not found none of these tags is present.
\<close>

theorem convertRpc2Metric_path_tags:
  "let res = convertRpc2Metric D k now m;
       g = FindStringSubmatch (RpcMetric.Path m);
       matched = (length g = 5)
   in Tags res ''rpc_target'' =
        Some (if matched then g ! 2 @ ''.'' @ g ! 4 else RpcMetric.Path m)
    \<and> Tags res ''rpc_version'' = None
    \<and> (case GetPodByUID k (SrcIP m) of
          Inl err \<Rightarrow>
            Tags res ''rpc_service'' = None \<and> Tags res ''rpc_method'' = None
            \<and> Tags res ''dubbo_version'' = None \<and> Tags res ''service_version'' = None
        | Inr targetPod \<Rightarrow>
            if RpcType m = D
            then Tags res ''rpc_service'' = Some (if matched then g ! 2 else [])
               \<and> Tags res ''rpc_method'' = Some (if matched then g ! 4 else [])
               \<and> Tags res ''dubbo_version'' = Some (if matched then g ! 1 else [])
               \<and> Tags res ''service_version'' = Some (if matched then g ! 3 else [])
            else Tags res ''rpc_service'' = Some [] \<and> Tags res ''rpc_method'' = Some []
               \<and> Tags res ''dubbo_version'' = None \<and> Tags res ''service_version'' = None)"
  by (simp add: Let_def Tags_convertRpc2Metric_source_frame not_in_keys
      Tags_rpc_target_block_framing Tags_rpc_target_block_rpc Tags_rpc_target_block_other
      Tags_set_tag Tags_rpc_res parse_path_def index_def split: sum.splits)

text \<open>
  The claim fails: the path of scenario S4 matches with five components and the pod is
  found, yet the metric has no tag \<open>rpc_version\<close>; with an empty directory it has no
  tag \<open>rpc_service\<close>; and with another framing \<open>rpc_service\<close> is empty.
\<close>

theorem convertRpc2Metric_path_tags_counterexample:
  "FindStringSubmatch (RpcMetric.Path rpc_s4) =
     [''2.0.0!com.acme.Svc1.0.0/hello'', ''2.0.0'', ''com.acme.Svc'', ''1.0.0'', ''/hello'']
   \<and> GetPodByUID directory (SrcIP rpc_s4) = Inr pod_b
   \<and> Tags (convertRpc2Metric ''dubbo'' directory 0 rpc_s4) ''rpc_version'' = None
   \<and> Tags (convertRpc2Metric ''dubbo'' empty_directory 0 rpc_s4) ''rpc_service'' = None
   \<and> Tags (convertRpc2Metric ''dubbo'' directory 0 (rpc_s4\<lparr>RpcType := ''http''\<rparr>)) ''rpc_service''
       = Some []"
proof -
  have "''rpc_service'' \<notin> set rpc_framing_keys"
    by (simp add: rpc_framing_keys_def)
  then show ?thesis
    by (simp add: Tags_convertRpc2Metric_source_frame not_in_keys Tags_set_tag Tags_rpc_res
      Tags_rpc_target_block_other Tags_rpc_target_block_rpc index_def
      FindStringSubmatch_s4 example_defs split: prod.splits)
qed

theorem convertRpc2Metric_path_tags_witness:
  "Tags (convertRpc2Metric ''dubbo'' directory 0 rpc_s4) ''rpc_target'' = Some ''com.acme.Svc./hello''
   \<and> Tags (convertRpc2Metric ''dubbo'' directory 0 rpc_s4) ''rpc_service'' = Some ''com.acme.Svc''
   \<and> Tags (convertRpc2Metric ''dubbo'' directory 0 rpc_s4) ''rpc_method'' = Some ''/hello''
   \<and> Tags (convertRpc2Metric ''dubbo'' directory 0 rpc_s4) ''dubbo_version'' = Some ''2.0.0''
   \<and> Tags (convertRpc2Metric ''dubbo'' directory 0 rpc_s4) ''service_version'' = Some ''1.0.0''
   \<and> Tags (convertRpc2Metric ''dubbo'' directory 0 rpc_s5) ''rpc_target'' = Some ''weird''
   \<and> Tags (convertRpc2Metric ''dubbo'' directory 0 rpc_s5) ''rpc_service'' = Some []
   \<and> Tags (convertRpc2Metric ''dubbo'' empty_directory 0 rpc_s5) ''rpc_method'' = None"
  using convertRpc2Metric_path_tags [of "''dubbo''" directory 0 rpc_s4]
    convertRpc2Metric_path_tags [of "''dubbo''" directory 0 rpc_s5]
    convertRpc2Metric_path_tags [of "''dubbo''" empty_directory 0 rpc_s5]
  by (simp add: Let_def FindStringSubmatch_s4 FindStringSubmatch_s5 example_defs)

text \<open>
  C5, as the code has it. When the pod of \<open>SrcIP\<close> is found, the tag \<open>error\<close> is
  \<open>false\<close> exactly when the framing is Dubbo and the status is \<open>20\<close>, or the framing
  is not Dubbo and the status is \<open>200\<close>, and \<open>true\<close> otherwise. When the pod is not
  found the metric is still returned, without the tag.
\<close>

theorem convertRpc2Metric_error_tag:
  "Tags (convertRpc2Metric D k now m) ''error'' =
     (case GetPodByUID k (SrcIP m) of
        Inl err \<Rightarrow> None
      | Inr targetPod \<Rightarrow>
          Some (if (RpcType m = D \<and> Status m = ''20'') \<or> (RpcType m \<noteq> D \<and> Status m = ''200'')
                then ''false'' else ''true''))"
  by (simp add: Tags_convertRpc2Metric_source_frame not_in_keys Tags_rpc_target_block_framing
      Tags_rpc_framing_tags_error Tags_set_tag Tags_rpc_res split: prod.splits sum.splits)

text \<open>
  The claim fails: a Dubbo event with status \<open>20\<close> yields a metric with no tag
  \<open>error\<close> when the directory does not know the address.
\<close>

theorem convertRpc2Metric_error_tag_counterexample:
  "RpcType rpc_s4 = ''dubbo'' \<and> Status rpc_s4 = ''20''
   \<and> Tags (convertRpc2Metric ''dubbo'' empty_directory 0 rpc_s4) ''error'' = None"
  by (simp add: Tags_convertRpc2Metric_source_frame not_in_keys Tags_set_tag Tags_rpc_res
      example_defs split: prod.splits)

theorem convertRpc2Metric_error_tag_witness:
  "Tags (convertRpc2Metric ''dubbo'' directory 0 rpc_s4) ''error'' = Some ''false''
   \<and> Tags (convertRpc2Metric ''dubbo'' directory 0 (rpc_s4\<lparr>Status := ''21''\<rparr>)) ''error'' = Some ''true''
   \<and> Tags (convertRpc2Metric ''dubbo'' directory 0 rpc_s5) ''error'' = Some ''false''
   \<and> Tags (convertRpc2Metric ''dubbo'' directory 0 (rpc_s5\<lparr>Status := ''500''\<rparr>)) ''error'' = Some ''true''
   \<and> Tags (convertRpc2Metric ''dubbo'' empty_directory 0 rpc_s5) ''error'' = None"
  using convertRpc2Metric_error_tag [of "''dubbo''" directory 0 rpc_s4]
    convertRpc2Metric_error_tag [of "''dubbo''" directory 0 "rpc_s4\<lparr>Status := ''21''\<rparr>"]
    convertRpc2Metric_error_tag [of "''dubbo''" directory 0 rpc_s5]
    convertRpc2Metric_error_tag [of "''dubbo''" directory 0 "rpc_s5\<lparr>Status := ''500''\<rparr>"]
    convertRpc2Metric_error_tag [of "''dubbo''" empty_directory 0 rpc_s5]
  by (simp add: example_defs)

section \<open>Common tags\<close>

text \<open>
  C6, as the code has it. Every metric \<open>Convert\<close> emits carries \<open>metric_source=ebpf\<close>,
  \<open>_meta=true\<close>, \<open>_metric_scope=micro_service\<close> and \<open>span_kind=server\<close>. Every metric
  of \<open>convertRpc2Metric\<close> carries the first three; it carries \<open>span_kind=server\<close> when
  the pod of \<open>SrcIP\<close> is found, and no tag \<open>span_kind\<close> when it is not.
\<close>

theorem common_tags:
  "(\<forall>out. Convert k now h = Some out \<longrightarrow>
       Tags out ''metric_source'' = Some ''ebpf'' \<and> Tags out ''_meta'' = Some ''true''
       \<and> Tags out ''_metric_scope'' = Some ''micro_service''
       \<and> Tags out ''span_kind'' = Some ''server'')
   \<and> (let res = convertRpc2Metric D k now m
       in Tags res ''metric_source'' = Some ''ebpf'' \<and> Tags res ''_meta'' = Some ''true''
        \<and> Tags res ''_metric_scope'' = Some ''micro_service''
        \<and> Tags res ''span_kind'' =
            (case GetPodByUID k (SrcIP m) of Inl err \<Rightarrow> None | Inr targetPod \<Rightarrow> Some ''server''))"
proof -
  have http: "Tags out ''metric_source'' = Some ''ebpf'' \<and> Tags out ''_meta'' = Some ''true''
       \<and> Tags out ''_metric_scope'' = Some ''micro_service''
       \<and> Tags out ''span_kind'' = Some ''server''" if "Convert k now h = Some out" for out
    using that
    by (auto simp: Convert_def Let_def Tags_http_pod_arm_other common_not_in_http_pod_keys
        http_output_def split: sum.splits option.splits target.splits)
  have rpc: "Tags (convertRpc2Metric D k now m) ''metric_source'' = Some ''ebpf''"
    "Tags (convertRpc2Metric D k now m) ''_meta'' = Some ''true''"
    "Tags (convertRpc2Metric D k now m) ''_metric_scope'' = Some ''micro_service''"
    by (simp_all add: Tags_convertRpc2Metric_source_frame not_in_keys
        Tags_rpc_target_block_other Tags_set_tag Tags_rpc_res split: prod.splits sum.splits)
  have span: "Tags (convertRpc2Metric D k now m) ''span_kind'' =
      (case GetPodByUID k (SrcIP m) of Inl err \<Rightarrow> None | Inr targetPod \<Rightarrow> Some ''server'')"
    by (simp add: Tags_convertRpc2Metric_source_frame not_in_keys
        Tags_rpc_target_block_span_kind Tags_set_tag Tags_rpc_res split: prod.splits sum.splits)
  from http rpc span show ?thesis by (simp add: Let_def)
qed

text \<open>The claim fails: with an empty directory the RPC metric has no tag \<open>span_kind\<close>.\<close>

theorem common_tags_counterexample:
  "Tags (convertRpc2Metric ''dubbo'' empty_directory 0 rpc_s4) ''span_kind'' = None"
  by (simp add: Tags_convertRpc2Metric_source_frame not_in_keys Tags_set_tag Tags_rpc_res
      example_defs split: prod.splits)

theorem common_tags_witness:
  "(\<exists>out. Convert directory 0 http_s1 = Some out
       \<and> Tags out ''metric_source'' = Some ''ebpf'' \<and> Tags out ''_meta'' = Some ''true''
       \<and> Tags out ''_metric_scope'' = Some ''micro_service''
       \<and> Tags out ''span_kind'' = Some ''server'')
   \<and> Tags (convertRpc2Metric ''dubbo'' directory 0 rpc_s4) ''metric_source'' = Some ''ebpf''
   \<and> Tags (convertRpc2Metric ''dubbo'' directory 0 rpc_s4) ''_meta'' = Some ''true''
   \<and> Tags (convertRpc2Metric ''dubbo'' directory 0 rpc_s4) ''_metric_scope'' = Some ''micro_service''
   \<and> Tags (convertRpc2Metric ''dubbo'' directory 0 rpc_s4) ''span_kind'' = Some ''server''"
proof -
  obtain out where out: "Convert directory 0 http_s1 = Some out"
    using Convert_s1_emits by blast
  from common_tags [of directory 0 http_s1 "''dubbo''" rpc_s4] out show ?thesis
    by (simp add: Let_def example_defs)
qed

section \<open>HTTP classification\<close>

text \<open>
  C2. Every metric \<open>Convert\<close> emits has measurement and name \<open>application_http\<close> when
  the status code is at most 200, and \<open>application_http_error\<close> when it is above 200.
\<close>

theorem Convert_measurement:
  assumes "Convert k now m = Some out"
  shows "Measurement out =
           (if StatusCode m \<le> 200 then ''application_http'' else ''application_http_error'')
         \<and> Metric.Name out = Measurement out"
  using assms
  by (auto simp: Convert_def Let_def Measurement_http_pod_arm Name_http_pod_arm
      measurementGroup_def measurementGroupError_def
      split: sum.splits option.splits target.splits if_splits)

theorem Convert_measurement_witness:
  "(\<exists>out. Convert directory 0 http_s1 = Some out \<and> Measurement out = ''application_http''
       \<and> Metric.Name out = ''application_http'')
   \<and> (\<exists>out. Convert directory 0 http_s3 = Some out
       \<and> Measurement out = ''application_http_error''
       \<and> Metric.Name out = ''application_http_error'')"
proof -
  obtain o1 where o1: "Convert directory 0 http_s1 = Some o1"
    using Convert_s1_emits by blast
  obtain o3 where o3: "Convert directory 0 http_s3 = Some o3"
    using Convert_s3_emits by blast
  from Convert_measurement [OF o1] Convert_measurement [OF o3] o1 o3
  show ?thesis by (simp add: example_defs)
qed

section \<open>HTTP suppression\<close>

text \<open>
  C4. \<open>Convert\<close> returns \<open>nil\<close> exactly when the pod lookup of the source address
  fails, or both the pod lookup and the service lookup of the destination address fail.
  In every other case it returns a metric.
\<close>

theorem Convert_suppressed_iff:
  "Convert k now m = None \<longleftrightarrow>
     isl (GetPodByUID k (SourceIP m))
     \<or> (isl (GetPodByUID k (DestIP m)) \<and> isl (GetService k (DestIP m)))"
  by (auto simp: Convert_def Let_def resolve_target_def
      split: sum.splits option.splits target.splits)

theorem Convert_suppressed_iff_witness:
  "Convert directory 0 http_s2 = None \<and> Convert directory 0 http_unknown_source = None
   \<and> Convert directory 0 http_s1 \<noteq> None \<and> Convert directory 0 http_to_service \<noteq> None"
  using Convert_suppressed_iff [of directory 0 http_s2]
    Convert_suppressed_iff [of directory 0 http_unknown_source]
    Convert_suppressed_iff [of directory 0 http_s1]
    Convert_suppressed_iff [of directory 0 http_to_service]
  by (simp add: example_defs)

section \<open>HTTP tags\<close>

text \<open>
  C10. In every metric \<open>Convert\<close> emits, the tags \<open>http_target\<close> and \<open>http_path\<close> are
  the path of the event, and \<open>http_url\<close> is \<open>http://\<close>, the destination address, a
  colon, the destination port in decimal, and the path.
\<close>

theorem Convert_http_tags:
  assumes "Convert k now m = Some out"
  shows "Tags out ''http_target'' = Some (HttpMetric.Path m)
       \<and> Tags out ''http_path'' = Some (HttpMetric.Path m)
       \<and> Tags out ''http_url'' =
           Some (''http://'' @ DestIP m @ '':'' @ Itoa (DestPort m) @ HttpMetric.Path m)"
proof -
  have other: "''http_target'' \<notin> set http_pod_keys" "''http_path'' \<notin> set http_pod_keys"
    "''http_url'' \<notin> set http_pod_keys"
    by (simp_all add: http_pod_keys_def)
  from assms show ?thesis
    by (auto simp: Convert_def Let_def Tags_http_pod_arm_other [OF other(1)]
        Tags_http_pod_arm_other [OF other(2)] Tags_http_pod_arm_other [OF other(3)]
        http_output_def split: sum.splits option.splits target.splits)
qed

theorem Convert_http_tags_witness:
  "\<exists>out. Convert directory 0 http_s1 = Some out
     \<and> Tags out ''http_target'' = Some ''/api'' \<and> Tags out ''http_path'' = Some ''/api''
     \<and> Tags out ''http_url'' = Some ''http://10.0.0.2:8080/api''"
proof -
  obtain out where out: "Convert directory 0 http_s1 = Some out"
    using Convert_s1_emits by blast
  from Convert_http_tags [OF out] out show ?thesis
    by (simp add: example_defs Itoa_def formatBits.simps digit_def)
qed


text \<open>
  C7, as the code has it. When the source pod is found and the destination is a service
  (its pod lookup fails, its service lookup succeeds), \<open>Convert\<close> emits a metric whose
  tags are exactly the ten it starts with: the four common tags and the six \<open>http_*\<close>
  tags. The \<open>corev1.Service\<close> arm assigns nothing, so the metric has no \<open>source_*\<close>
  and no \<open>target_*\<close> tag.
\<close>

theorem Convert_service_target:
  assumes "GetPodByUID k (SourceIP m) = Inr sourcePod"
    and "GetPodByUID k (DestIP m) = Inl err"
    and "GetService k (DestIP m) = Inr svc"
  shows "\<exists>out. Convert k now m = Some out
     \<and> dom (Tags out) =
         {''metric_source'', ''_meta'', ''_metric_scope'', ''span_kind'', ''http_method'',
          ''http_path'', ''http_status_code'', ''http_target'', ''http_version'', ''http_url''}"
  using assms
  by (auto simp: Convert_def Let_def resolve_target_def http_output_def)

text \<open>
  The claim fails: for a destination that is a service the metric has none of the
  \<open>source_*\<close> tags.
\<close>

theorem Convert_service_target_counterexample:
  "GetPodByUID directory (SourceIP http_to_service) = Inr pod_a
   \<and> GetPodByUID directory (DestIP http_to_service) = Inl ''not found''
   \<and> GetService directory (DestIP http_to_service) = Inr svc_c
   \<and> (\<exists>out. Convert directory 0 http_to_service = Some out
        \<and> Tags out ''source_application_id'' = None
        \<and> Tags out ''source_service_id'' = None
        \<and> Tags out ''source_workspace'' = None)"
  by (simp add: Convert_def Let_def resolve_target_def http_output_def directory_def
      http_to_service_def http_s1_def)

theorem Convert_service_target_witness:
  "\<exists>out. Convert directory 0 http_to_service = Some out
     \<and> dom (Tags out) =
         {''metric_source'', ''_meta'', ''_metric_scope'', ''span_kind'', ''http_method'',
          ''http_path'', ''http_status_code'', ''http_target'', ''http_version'', ''http_url''}"
proof -
  have "GetPodByUID directory (SourceIP http_to_service) = Inr pod_a"
    "GetPodByUID directory (DestIP http_to_service) = Inl ''not found''"
    "GetService directory (DestIP http_to_service) = Inr svc_c"
    by (simp_all add: directory_def http_to_service_def http_s1_def)
  then show ?thesis by (rule Convert_service_target)
qed

end
